theory Spec2Isabelle
  imports Complex_Main
begin

section \<open>Data model\<close>

text \<open>
  The repository holds two back ends for the same rating service: an ES-module server
  whose controllers go through Sequelize models (\<^verbatim>\<open>createRating\<close>,
  \<^verbatim>\<open>updateUserAverageRating\<close>, model \<^verbatim>\<open>Rating\<close>), and a CommonJS server whose
  routes send SQL text to PostgreSQL (\<^verbatim>\<open>POST /api/ratings\<close>, \<^verbatim>\<open>GET /api/ratings/:userId\<close>,
  \<^verbatim>\<open>DELETE /api/ratings/:id\<close>, \<^verbatim>\<open>PUT /api/admin/users/:id/toggle-status\<close>,
  middleware \<^verbatim>\<open>authenticateToken\<close>, \<^verbatim>\<open>requireAdmin\<close> and
  \<^verbatim>\<open>requireOwnerOrAdmin\<close>). Both address tables named \<^verbatim>\<open>users\<close> and \<^verbatim>\<open>ratings\<close>.
  The store below carries the union of the columns that the rating code reads or writes;
  every operation touches only the columns its own source touches, and every insert is
  checked against the constraints that its own schema declares. No run below mixes the
  handlers of the two back ends.

  Identifiers are written as integers. The id columns are INTEGER columns, so an id that a
  row carries lies in the INTEGER range; a request parameter outside that range matches no
  row, and binding it to an INTEGER parameter makes the statement fail.
\<close>

datatype role = UserRole | AdminRole

text \<open>A JavaScript number as far as the rating code produces one: \<^verbatim>\<open>NaN\<close>, or the
  double parsed from the decimal text of a quotient \<open>q\<close>. The double itself is not
  computed: \<open>Num q\<close> keeps the exact quotient it was parsed from.\<close>

datatype js_number = NaN | Num rat

text \<open>The text produced by \<^verbatim>\<open>Number.prototype.toFixed\<close>: \<^verbatim>\<open>"NaN"\<close>, or a decimal
  with \<open>d\<close> fraction digits, kept as the integer \<open>n\<close> that stands for \<open>n / 10 ^ d\<close>.
  \<open>Near_tie d q\<close> is the text of \<open>d\<close> fraction digits for the double parsed from \<open>q\<close>
  in the cases where the exact quotient does not settle its last digit.\<close>

datatype fixed_text = NaN_text | Dec nat int | Near_tie nat rat

record user_row =
  role :: role
  active :: bool
  averageRating :: fixed_text
  totalRatings :: int

record rating_row =
  rating_id :: int
  raterId :: int
  ratedUserId :: int
  skillId :: "int option"
  rating :: int
  comment :: "string option"

text \<open>The list of ratings is kept newest first, the order of
  \<^verbatim>\<open>ORDER BY created_at DESC\<close>.\<close>

record store =
  users :: "int \<rightharpoonup> user_row"
  skills :: "int set"
  ratings :: "rating_row list"
  next_rating_id :: int

text \<open>
  What a handler answers. \<open>Created\<close> is status 201 with the new rating's id,
  \<open>Deleted\<close> the 200 of the delete route, \<open>Toggled\<close> the 200 of the status toggle, \<open>ValidationFailed\<close> the 400 of a rejected
  body, \<open>SelfRating\<close> the 400 "You cannot rate yourself", \<open>DuplicateRating\<close> the
  "already rated" answer (400 in the controller, 409 in the route), \<open>TargetNotFound\<close> the
  404 "User to be rated not found", \<open>RatingNotFound\<close> the 404 "Rating not found",
  \<open>UserNotFound\<close> the 404 of the listing, \<open>InsufficientPermission\<close> a 403,
  \<open>Unauthenticated\<close> a 401, \<open>InternalError\<close> the 500 that a route's catch block
  sends, and \<open>Forwarded\<close> an error handed to \<^verbatim>\<open>next(error)\<close>.
\<close>

datatype response =
    Created int
  | Deleted
  | Toggled
  | ValidationFailed
  | SelfRating
  | DuplicateRating
  | TargetNotFound
  | RatingNotFound
  | UserNotFound
  | InsufficientPermission
  | Unauthenticated
  | InternalError
  | Forwarded

section \<open>Aggregation: \<^verbatim>\<open>updateUserAverageRating\<close>\<close>

definition rated_rows :: "store \<Rightarrow> int \<Rightarrow> rating_row list" where
  "rated_rows s u = filter (\<lambda>r. ratedUserId r = u) (ratings s)"

text \<open>SQL \<^verbatim>\<open>AVG\<close> is NULL over no rows; \<^verbatim>\<open>COUNT\<close> is the number of rows.\<close>

definition sql_avg :: "int list \<Rightarrow> rat option" where
  "sql_avg xs = (if xs = [] then None else Some (of_int (sum_list xs) / of_int (int (length xs))))"

definition sql_count :: "'a list \<Rightarrow> int" where
  "sql_count xs = int (length xs)"

text \<open>\<^verbatim>\<open>parseFloat(null)\<close> is \<^verbatim>\<open>NaN\<close>; otherwise the argument is the decimal text
  of the quotient.\<close>

definition parseFloat :: "rat option \<Rightarrow> js_number" where
  "parseFloat v = (case v of None \<Rightarrow> NaN | Some q \<Rightarrow> Num q)"

text \<open>
  The text of \<^verbatim>\<open>AVG\<close> carries at least 16 significant digits and \<^verbatim>\<open>parseFloat\<close>
  rounds it to the nearest double, so the parsed double lies within \<open>round_margin q\<close> of
  the exact quotient \<open>q\<close>.
\<close>

definition round_margin :: "rat \<Rightarrow> rat" where
  "round_margin q = (\<bar>q\<bar> + 1) / 10 ^ 15"

text \<open>
  \<^verbatim>\<open>toFixed(d)\<close> picks the integer \<open>n\<close> with \<open>n / 10 ^ d\<close> nearest to the double. When
  \<open>q * 10 ^ d\<close> is farther from the midpoint between two integers than the margin allows
  the double to move, that integer is the one nearest to \<open>q * 10 ^ d\<close>. Otherwise (and for
  a negative quotient, whose text may be \<^verbatim>\<open>-0.00\<close>) the digits depend on the double, and
  the model leaves them open.
\<close>

definition toFixed :: "nat \<Rightarrow> js_number \<Rightarrow> fixed_text" where
  "toFixed d x =
     (case x of
        NaN \<Rightarrow> NaN_text
      | Num q \<Rightarrow>
          (let y = q * 10 ^ d in
           if 0 \<le> q \<and> round_margin q * 10 ^ d < \<bar>y - of_int \<lfloor>y\<rfloor> - 1 / 2\<bar>
           then Dec d \<lfloor>y + 1 / 2\<rfloor>
           else Near_tie d q))"

text \<open>\<^verbatim>\<open>User.update(values, { where: { id: userId } })\<close>: no row, no change.\<close>

definition User_update :: "store \<Rightarrow> int \<Rightarrow> fixed_text \<Rightarrow> int \<Rightarrow> store" where
  "User_update s u avg tot =
     (case users s u of
        None \<Rightarrow> s
      | Some row \<Rightarrow> s\<lparr>users := (users s)(u \<mapsto> row\<lparr>averageRating := avg, totalRatings := tot\<rparr>)\<rparr>)"

text \<open>The aggregate query has no \<^verbatim>\<open>GROUP BY\<close>, so its result always has exactly one
  row, also when no rating matches.\<close>

definition aggregate_query :: "store \<Rightarrow> int \<Rightarrow> (rat option \<times> int) list" where
  "aggregate_query s u =
     (let rows = rated_rows s u in [(sql_avg (map rating rows), sql_count rows)])"

definition updateUserAverageRating :: "store \<Rightarrow> int \<Rightarrow> store" where
  "updateUserAverageRating s u =
     (let result = aggregate_query s u in
      if length result > 0 then
        (case hd result of (avg, tot) \<Rightarrow> User_update s u (toFixed 2 (parseFloat avg)) tot)
      else s)"

section \<open>The Sequelize controller: \<^verbatim>\<open>createRating\<close>\<close>

record create_body =
  b_ratedUserId :: int
  b_skillId :: "int option"
  b_rating :: int
  b_comment :: "string option"

definition createRatingSchema :: "create_body \<Rightarrow> bool" where
  "createRatingSchema b \<longleftrightarrow>
     0 < b_ratedUserId b \<and>
     (case b_skillId b of None \<Rightarrow> True | Some k \<Rightarrow> 0 < k) \<and>
     1 \<le> b_rating b \<and> b_rating b \<le> 5"

text \<open>The \<^verbatim>\<open>where\<close> object of the duplicate lookup: the \<^verbatim>\<open>skillId\<close> condition is
  spread in only when the body carries a skill id.\<close>

definition where_existing :: "int \<Rightarrow> create_body \<Rightarrow> rating_row \<Rightarrow> bool" where
  "where_existing uid b r \<longleftrightarrow>
     raterId r = uid \<and> ratedUserId r = b_ratedUserId b \<and>
     (case b_skillId b of None \<Rightarrow> True | Some k \<Rightarrow> skillId r = Some k)"

definition findOne :: "store \<Rightarrow> (rating_row \<Rightarrow> bool) \<Rightarrow> rating_row option" where
  "findOne s P = find P (ratings s)"

text \<open>The row that \<^verbatim>\<open>Rating.create({ ...validatedData, raterId: req.user.id })\<close>
  builds; the id comes from the table's sequence.\<close>

definition new_row :: "store \<Rightarrow> int \<Rightarrow> create_body \<Rightarrow> rating_row" where
  "new_row s uid b =
     \<lparr>rating_id = next_rating_id s, raterId = uid, ratedUserId = b_ratedUserId b,
      skillId = b_skillId b, rating = b_rating b, comment = b_comment b\<rparr>"

text \<open>\<^verbatim>\<open>Rating.create\<close> against the table of \<^verbatim>\<open>Rating.init\<close>: the three
  \<^verbatim>\<open>references\<close> are foreign keys and \<^verbatim>\<open>rating\<close> is validated to lie in 1..5; the
  model declares no unique index. \<open>None\<close> is a rejected insert (an exception).\<close>

definition Rating_create :: "store \<Rightarrow> int \<Rightarrow> create_body \<Rightarrow> (store \<times> rating_row) option" where
  "Rating_create s uid b =
     (if users s uid = None \<or> users s (b_ratedUserId b) = None
         \<or> (case b_skillId b of None \<Rightarrow> False | Some k \<Rightarrow> k \<notin> skills s)
         \<or> b_rating b < 1 \<or> 5 < b_rating b
      then None
      else
        (let r = new_row s uid b
         in Some (s\<lparr>ratings := r # ratings s, next_rating_id := next_rating_id s + 1\<rparr>, r)))"

definition createRating :: "store \<Rightarrow> int \<Rightarrow> create_body \<Rightarrow> response \<times> store" where
  "createRating s uid b =
     (if \<not> createRatingSchema b then (ValidationFailed, s)
      else if b_ratedUserId b = uid then (SelfRating, s)
      else (case findOne s (where_existing uid b) of
              Some existing \<Rightarrow> (DuplicateRating, s)
            | None \<Rightarrow>
                (case Rating_create s uid b of
                   None \<Rightarrow> (Forwarded, s)
                 | Some (s1, r) \<Rightarrow>
                     (Created (rating_id r), updateUserAverageRating s1 (b_ratedUserId b)))))"


section \<open>The SQL routes\<close>

text \<open>The range of an INTEGER column or parameter.\<close>

definition int4 :: "int \<Rightarrow> bool" where
  "int4 x \<longleftrightarrow> - 2147483648 \<le> x \<and> x \<le> 2147483647"

subsection \<open>Middleware\<close>

record principal =
  p_id :: int
  p_role :: role

text \<open>\<^verbatim>\<open>authenticateToken\<close>: the argument is the user id of a verified token, or
  \<open>None\<close> when the token is missing or does not verify. The user must exist and be
  active.\<close>

definition authenticateToken :: "store \<Rightarrow> int option \<Rightarrow> principal option" where
  "authenticateToken s tok =
     (case tok of
        None \<Rightarrow> None
      | Some uid \<Rightarrow>
          (case users s uid of
             None \<Rightarrow> None
           | Some u \<Rightarrow> if active u then Some \<lparr>p_id = uid, p_role = role u\<rparr> else None))"

datatype decision = Allowed | Denied response

definition requireOwnerOrAdmin :: "principal \<Rightarrow> int \<Rightarrow> decision" where
  "requireOwnerOrAdmin user resourceId =
     (if p_role user = AdminRole \<or> p_id user = resourceId then Allowed
      else Denied InsufficientPermission)"

definition requireAdmin :: "principal \<Rightarrow> decision" where
  "requireAdmin user =
     (if p_role user \<noteq> AdminRole then Denied InsufficientPermission else Allowed)"

subsection \<open>\<^verbatim>\<open>PUT /api/admin/users/:id/toggle-status\<close>\<close>

text \<open>The admin router runs \<^verbatim>\<open>authenticateToken\<close> and \<^verbatim>\<open>requireAdmin\<close> first. The
  \<^verbatim>\<open>UPDATE\<close> flips \<^verbatim>\<open>active\<close>; no row gives the 404, and a parameter outside
  the INTEGER range the 500 of the catch block.\<close>

definition toggle_status :: "store \<Rightarrow> int option \<Rightarrow> int \<Rightarrow> response \<times> store" where
  "toggle_status s tok uid =
     (case authenticateToken s tok of
        None \<Rightarrow> (Unauthenticated, s)
      | Some user \<Rightarrow>
          (case requireAdmin user of
             Denied rejection \<Rightarrow> (rejection, s)
           | Allowed \<Rightarrow>
               (case users s uid of
                  None \<Rightarrow> if int4 uid then (UserNotFound, s) else (InternalError, s)
                | Some row \<Rightarrow>
                    (Toggled, s\<lparr>users := (users s)(uid \<mapsto> row\<lparr>active := \<not> active row\<rparr>)\<rparr>))))"

subsection \<open>\<^verbatim>\<open>POST /api/ratings\<close>\<close>

text \<open>The body of the request; each numeric field is the integer that its text spells
  (the validators read the text of the field).\<close>

record rating_req =
  q_rated_user_id :: int
  q_rating :: int
  q_comment :: "string option"

definition is_space :: "char \<Rightarrow> bool" where
  "is_space c \<longleftrightarrow> c \<in> {CHR '' '', CHR 0x09, CHR 0x0A, CHR 0x0B, CHR 0x0C, CHR 0x0D}"

definition trim :: "string \<Rightarrow> string" where
  "trim t = rev (dropWhile is_space (rev (dropWhile is_space t)))"

definition ratingValidation :: "rating_req \<Rightarrow> bool" where
  "ratingValidation q \<longleftrightarrow>
     1 \<le> q_rated_user_id q \<and> 1 \<le> q_rating q \<and> q_rating q \<le> 5 \<and>
     (case q_comment q of None \<Rightarrow> True | Some c \<Rightarrow> length (trim c) \<le> 500)"

definition user_active :: "store \<Rightarrow> int \<Rightarrow> bool" where
  "user_active s u = (case users s u of None \<Rightarrow> False | Some row \<Rightarrow> active row)"

definition pair_rows :: "store \<Rightarrow> int \<Rightarrow> int \<Rightarrow> rating_row list" where
  "pair_rows s reviewer rated =
     filter (\<lambda>r. raterId r = reviewer \<and> ratedUserId r = rated) (ratings s)"

text \<open>The \<^verbatim>\<open>INSERT\<close> against the table of the SQL schema: two foreign keys, the
  \<^verbatim>\<open>CHECK\<close> on \<^verbatim>\<open>rating\<close> and \<^verbatim>\<open>UNIQUE(reviewer_id, rated_user_id)\<close>. \<open>None\<close> is
  a constraint violation (an exception of the query).\<close>

definition insert_rating :: "store \<Rightarrow> int \<Rightarrow> rating_req \<Rightarrow> (store \<times> rating_row) option" where
  "insert_rating s reviewer q =
     (if users s reviewer = None \<or> users s (q_rated_user_id q) = None
         \<or> q_rating q < 1 \<or> 5 < q_rating q
         \<or> pair_rows s reviewer (q_rated_user_id q) \<noteq> []
      then None
      else
        (let r = \<lparr>rating_id = next_rating_id s, raterId = reviewer,
                   ratedUserId = q_rated_user_id q, skillId = None,
                   rating = q_rating q, comment = map_option trim (q_comment q)\<rparr>
         in Some (s\<lparr>ratings := r # ratings s, next_rating_id := next_rating_id s + 1\<rparr>, r)))"

text \<open>The handler awaits the store three times. \<open>post_rating_checks\<close> is the part up
  to and including the duplicate lookup (\<open>None\<close>: no rejection, go on); the lookup of
  the rated user finds no active user and answers 404, or fails on a parameter outside the
  INTEGER range and is answered by the catch block;
  \<open>post_rating_insert\<close> the insert inside the \<^verbatim>\<open>try\<close> block with its
  \<^verbatim>\<open>catch\<close>. A request served alone runs both on the same store; two requests in
  flight may have another request's insert between the two parts.\<close>

definition post_rating_checks :: "store \<Rightarrow> principal \<Rightarrow> rating_req \<Rightarrow> response option" where
  "post_rating_checks s user q =
     (if \<not> ratingValidation q then Some ValidationFailed
      else if p_id user = q_rated_user_id q then Some SelfRating
      else if \<not> user_active s (q_rated_user_id q) then
        (if int4 (q_rated_user_id q) then Some TargetNotFound else Some InternalError)
      else if pair_rows s (p_id user) (q_rated_user_id q) \<noteq> [] then Some DuplicateRating
      else None)"

definition post_rating_insert :: "store \<Rightarrow> principal \<Rightarrow> rating_req \<Rightarrow> response \<times> store" where
  "post_rating_insert s user q =
     (case insert_rating s (p_id user) q of
        None \<Rightarrow> (InternalError, s)
      | Some (s1, r) \<Rightarrow> (Created (rating_id r), s1))"

definition post_rating :: "store \<Rightarrow> int option \<Rightarrow> rating_req \<Rightarrow> response \<times> store" where
  "post_rating s tok q =
     (case authenticateToken s tok of
        None \<Rightarrow> (Unauthenticated, s)
      | Some user \<Rightarrow>
          (case post_rating_checks s user q of
             Some rejection \<Rightarrow> (rejection, s)
           | None \<Rightarrow> post_rating_insert s user q))"

text \<open>A sequence of requests to the route, served one after the other.\<close>

fun run_posts :: "store \<Rightarrow> (int option \<times> rating_req) list \<Rightarrow> store" where
  "run_posts s [] = s"
| "run_posts s ((tok, q) # ops) = run_posts (snd (post_rating s tok q)) ops"

subsection \<open>\<^verbatim>\<open>DELETE /api/ratings/:id\<close>\<close>

text \<open>The \<^verbatim>\<open>SELECT\<close> finds the row, or finds none and the route answers 404, or fails
  on an id outside the INTEGER range and the catch block answers 500.\<close>

definition delete_rating :: "store \<Rightarrow> int option \<Rightarrow> int \<Rightarrow> response \<times> store" where
  "delete_rating s tok rid =
     (case authenticateToken s tok of
        None \<Rightarrow> (Unauthenticated, s)
      | Some user \<Rightarrow>
          (case find (\<lambda>r. rating_id r = rid) (ratings s) of
             None \<Rightarrow> if int4 rid then (RatingNotFound, s) else (InternalError, s)
           | Some existing \<Rightarrow>
               if p_role user \<noteq> AdminRole \<and> raterId existing \<noteq> p_id user
               then (InsufficientPermission, s)
               else (Deleted, s\<lparr>ratings := filter (\<lambda>r. rating_id r \<noteq> rid) (ratings s)\<rparr>)))"

subsection \<open>\<^verbatim>\<open>GET /api/ratings/:userId\<close>\<close>

record pagination =
  pg_page :: int
  pg_limit :: int
  pg_total :: int
  pg_totalPages :: "int option"

record ratings_view =
  v_ratings :: "rating_row list"
  v_total_ratings :: int
  v_average_rating :: fixed_text
  v_distribution :: "int list"
  v_pagination :: pagination

text \<open>The query string: \<^verbatim>\<open>page\<close> and \<^verbatim>\<open>limit\<close> are absent or integers; the
  destructuring defaults (1 and 10) apply only to an absent parameter.\<close>

definition page_of :: "int option \<Rightarrow> int" where
  "page_of page = (case page of None \<Rightarrow> 1 | Some p \<Rightarrow> p)"

definition limit_of :: "int option \<Rightarrow> int" where
  "limit_of limit = (case limit of None \<Rightarrow> 10 | Some l \<Rightarrow> l)"

text \<open>
  The handler computes with doubles. An integer up to \<open>2 ^ 53 - 1\<close> in magnitude is a
  double, and differences, products and rounded-up quotients of such integers are exact
  as long as every value stays in that range. Outside of it the results depend on the
  rounding of doubles and on their decimal text, which this model leaves out: there it
  gives no answer (\<open>None\<close>).
\<close>

definition safe_integer :: "int \<Rightarrow> bool" where
  "safe_integer x \<longleftrightarrow> \<bar>x\<bar> \<le> 9007199254740991"

definition offset_of :: "int option \<Rightarrow> int option \<Rightarrow> int option" where
  "offset_of page limit =
     (let p = page_of page; l = limit_of limit in
      if safe_integer p \<and> safe_integer l \<and> safe_integer (p - 1) \<and> safe_integer ((p - 1) * l)
      then Some ((p - 1) * l)
      else None)"

text \<open>\<^verbatim>\<open>LIMIT l OFFSET off\<close>: PostgreSQL raises an error on a negative count.\<close>

definition limit_offset :: "int \<Rightarrow> int \<Rightarrow> 'a list \<Rightarrow> 'a list option" where
  "limit_offset l off xs =
     (if l < 0 \<or> off < 0 then None else Some (take (nat l) (drop (nat off) xs)))"

text \<open>\<^verbatim>\<open>Math.ceil(total / limit)\<close>: a division by zero gives \<^verbatim>\<open>Infinity\<close> or
  \<^verbatim>\<open>NaN\<close>, which JSON writes as \<^verbatim>\<open>null\<close> (\<open>None\<close>).\<close>

definition total_pages :: "int \<Rightarrow> int \<Rightarrow> int option" where
  "total_pages n l =
     (if l = 0 then None else Some \<lceil>(of_int n :: rat) / of_int l\<rceil>)"

definition star_count :: "rating_row list \<Rightarrow> int \<Rightarrow> int" where
  "star_count rows k = int (length (filter (\<lambda>r. rating r = k) rows))"

text \<open>The lookup of the user finds no active user and answers 404, or fails on an id
  outside the INTEGER range and is answered by the catch block, as a failing
  \<^verbatim>\<open>LIMIT\<close>/\<^verbatim>\<open>OFFSET\<close> is.\<close>

definition get_user_ratings ::
  "store \<Rightarrow> int \<Rightarrow> int option \<Rightarrow> int option \<Rightarrow> (response + ratings_view) option" where
  "get_user_ratings s userId page limit =
     (case offset_of page limit of
        None \<Rightarrow> None
      | Some off \<Rightarrow>
          (let l = limit_of limit;
               stats = rated_rows s userId;
               n = sql_count stats in
           if \<not> safe_integer n then None
           else if \<not> user_active s userId then
             (if int4 userId then Some (Inl UserNotFound) else Some (Inl InternalError))
           else
             (case limit_offset l off
                     (filter (\<lambda>r. users s (raterId r) \<noteq> None) (rated_rows s userId)) of
                None \<Rightarrow> Some (Inl InternalError)
              | Some rows \<Rightarrow>
                  (let avg = (case sql_avg (map rating stats) of
                                None \<Rightarrow> Some 0 | Some a \<Rightarrow> Some a)
                   in Some (Inr \<lparr>v_ratings = rows,
                                 v_total_ratings = n,
                                 v_average_rating = toFixed 1 (parseFloat avg),
                                 v_distribution = map (star_count stats) [5, 4, 3, 2, 1],
                                 v_pagination =
                                   \<lparr>pg_page = page_of page, pg_limit = l, pg_total = n,
                                    pg_totalPages = total_pages n l\<rparr>\<rparr>)))))"

section \<open>A small store for concrete runs\<close>

definition fresh_user :: user_row where
  "fresh_user = \<lparr>role = UserRole, active = True, averageRating = Dec 2 0, totalRatings = 0\<rparr>"

text \<open>Users 1, 2 and 5 are ordinary active users, 3 is an administrator, 4 is
  deactivated; the skills are 7 and 8, and there is no rating yet.\<close>

definition demo_store :: store where
  "demo_store =
     \<lparr>users = [1 \<mapsto> fresh_user, 2 \<mapsto> fresh_user,
               3 \<mapsto> fresh_user\<lparr>role := AdminRole\<rparr>, 4 \<mapsto> fresh_user\<lparr>active := False\<rparr>,
               5 \<mapsto> fresh_user],
      skills = {7, 8}, ratings = [], next_rating_id = 1\<rparr>"

definition demo_body :: "int \<Rightarrow> int option \<Rightarrow> int \<Rightarrow> create_body" where
  "demo_body target skill stars =
     \<lparr>b_ratedUserId = target, b_skillId = skill, b_rating = stars, b_comment = None\<rparr>"

definition demo_req :: "int \<Rightarrow> int \<Rightarrow> rating_req" where
  "demo_req target stars = \<lparr>q_rated_user_id = target, q_rating = stars, q_comment = None\<rparr>"

definition demo_user :: principal where
  "demo_user = \<lparr>p_id = 1, p_role = UserRole\<rparr>"

text \<open>User 1 has rated user 2 with five stars through the controller.\<close>

definition demo_rated :: store where
  "demo_rated = snd (createRating demo_store 1 (demo_body 2 None 5))"

text \<open>User 1 has rated user 2 for skill 7 through the controller.\<close>

definition demo_scoped :: store where
  "demo_scoped = snd (createRating demo_store 1 (demo_body 2 (Some 7) 5))"

text \<open>User 1 has rated user 2 with five stars through the route.\<close>

definition demo_posted :: store where
  "demo_posted = snd (post_rating demo_store (Some 1) (demo_req 2 5))"

text \<open>After that, the administrator (user 3) has deactivated user 2.\<close>

definition demo_deactivated :: store where
  "demo_deactivated = snd (toggle_status demo_posted (Some 3) 2)"


text \<open>Users 1, 3 and 5 have rated user 2 with 5, 4 and 3 stars through the route.\<close>

definition demo_listed :: store where
  "demo_listed =
     run_posts demo_store
       [(Some 1, demo_req 2 5), (Some 3, demo_req 2 4), (Some 5, demo_req 2 3)]"


section \<open>The summary against the ledger\<close>


text \<open>No two ratings share the pair of reviewer and rated user.\<close>

definition unique_pairs :: "store \<Rightarrow> bool" where
  "unique_pairs s \<longleftrightarrow> distinct (map (\<lambda>r. (raterId r, ratedUserId r)) (ratings s))"

section \<open>Auxiliary facts\<close>

lemmas demo_defs = demo_store_def fresh_user_def demo_body_def demo_req_def demo_user_def

lemmas controller_defs =
  createRating_def createRatingSchema_def findOne_def where_existing_def Rating_create_def
  new_row_def updateUserAverageRating_def aggregate_query_def User_update_def rated_rows_def
  sql_avg_def sql_count_def parseFloat_def toFixed_def round_margin_def Let_def

lemmas route_defs =
  post_rating_def post_rating_checks_def post_rating_insert_def insert_rating_def
  authenticateToken_def ratingValidation_def user_active_def pair_rows_def delete_rating_def
  requireOwnerOrAdmin_def requireAdmin_def toggle_status_def int4_def trim_def Let_def

lemma auth_active: "authenticateToken s tok = Some user \<Longrightarrow> user_active s (p_id user)"
  by (auto simp: authenticateToken_def user_active_def split: option.splits if_splits)

lemma auth_same_users:
  "users s' = users s \<Longrightarrow> authenticateToken s' tok = authenticateToken s tok"
  by (simp add: authenticateToken_def split: option.splits)

lemma find_None_set: "find P xs = None \<longleftrightarrow> (\<forall>x\<in>set xs. \<not> P x)"
  by (induction xs) auto

lemma find_Some_set: "find P xs = Some x \<Longrightarrow> x \<in> set xs \<and> P x"
  by (induction xs) (auto split: if_splits)

lemma updateUser_eq:
  "updateUserAverageRating s u =
     User_update s u (toFixed 2 (parseFloat (sql_avg (map rating (rated_rows s u)))))
       (sql_count (rated_rows s u))"
  by (simp add: updateUserAverageRating_def aggregate_query_def Let_def)

lemma User_update_ratings: "ratings (User_update s u a n) = ratings s"
  by (simp add: User_update_def split: option.splits)

lemma updateUser_ratings: "ratings (updateUserAverageRating s u) = ratings s"
  by (simp add: updateUser_eq User_update_ratings)















lemma createRating_dup_iff:
  assumes "createRatingSchema b" "b_ratedUserId b \<noteq> uid"
  shows "fst (createRating s uid b) = DuplicateRating \<longleftrightarrow>
         (\<exists>r\<in>set (ratings s). where_existing uid b r)"
  using assms
  by (cases "find (where_existing uid b) (ratings s)")
     (auto simp: createRating_def findOne_def find_None_set split: option.splits
           dest: find_Some_set)

lemma createRating_dup_state:
  "fst (createRating s uid b) = DuplicateRating \<Longrightarrow> createRating s uid b = (DuplicateRating, s)"
  by (auto simp: createRating_def split: if_splits option.splits prod.splits)

subsection \<open>The concrete stores, evaluated\<close>

lemma floor_rat_numeral: "\<lfloor>numeral a / numeral b :: rat\<rfloor> = numeral a div numeral b"
  by (metis floor_divide_of_int_eq of_int_numeral)

lemma ceiling_rat_numeral: "\<lceil>numeral a / numeral b :: rat\<rceil> = - (- numeral a div numeral b)"
  by (metis ceiling_def floor_divide_of_int_eq minus_divide_left of_int_minus of_int_numeral)

lemma ceiling_rat_one: "\<lceil>1 / numeral b :: rat\<rceil> = - (- 1 div numeral b)"
  by (metis ceiling_def floor_divide_of_int_eq minus_divide_left of_int_minus of_int_numeral
      of_int_1)

lemma floor_rat_one: "\<lfloor>1 / numeral b :: rat\<rfloor> = 1 div numeral b"
  by (metis floor_divide_of_int_eq of_int_numeral of_int_1)

lemmas rat_round = floor_rat_numeral floor_rat_one ceiling_rat_numeral ceiling_rat_one

lemma demo_auth_1: "authenticateToken demo_store (Some 1) = Some demo_user"
  by (simp add: authenticateToken_def demo_defs)

lemma demo_rated_ratings:
  "ratings demo_rated =
     [\<lparr>rating_id = 1, raterId = 1, ratedUserId = 2, skillId = None, rating = 5, comment = None\<rparr>]"
  by (simp add: demo_rated_def demo_defs controller_defs)

lemma demo_rated_users:
  "users demo_rated =
     (users demo_store)(2 \<mapsto> fresh_user\<lparr>averageRating := Dec 2 500, totalRatings := 1\<rparr>)"
  by (simp add: demo_rated_def demo_defs controller_defs rat_round)

lemma demo_rated_next: "next_rating_id demo_rated = 2"
  by (simp add: demo_rated_def demo_defs controller_defs)

lemma demo_rated_skills: "skills demo_rated = {7, 8}"
  by (simp add: demo_rated_def demo_defs controller_defs)




lemma demo_scoped_ratings:
  "ratings demo_scoped =
     [\<lparr>rating_id = 1, raterId = 1, ratedUserId = 2, skillId = Some 7, rating = 5, comment = None\<rparr>]"
  by (simp add: demo_scoped_def demo_defs controller_defs)

lemma demo_posted_eq:
  "demo_posted =
     demo_store\<lparr>ratings :=
       [\<lparr>rating_id = 1, raterId = 1, ratedUserId = 2, skillId = None, rating = 5, comment = None\<rparr>],
       next_rating_id := 2\<rparr>"
  by (simp add: demo_posted_def demo_defs route_defs)

lemma demo_posted_auth_1: "authenticateToken demo_posted (Some 1) = Some demo_user"
  by (simp add: authenticateToken_def demo_posted_eq demo_defs)

lemma demo_deactivated_eq:
  "demo_deactivated =
     demo_posted\<lparr>users := (users demo_store)(2 \<mapsto> fresh_user\<lparr>active := False\<rparr>)\<rparr>"
  by (simp add: demo_deactivated_def demo_posted_eq demo_defs route_defs)



lemma demo_listed_eq:
  "demo_listed =
     demo_store\<lparr>ratings :=
       [\<lparr>rating_id = 3, raterId = 5, ratedUserId = 2, skillId = None, rating = 3, comment = None\<rparr>,
        \<lparr>rating_id = 2, raterId = 3, ratedUserId = 2, skillId = None, rating = 4, comment = None\<rparr>,
        \<lparr>rating_id = 1, raterId = 1, ratedUserId = 2, skillId = None, rating = 5, comment = None\<rparr>],
       next_rating_id := 4\<rparr>"
  by (simp add: demo_listed_def demo_defs route_defs)




section \<open>Claims\<close>

subsection \<open>C4: self-rating\<close>

text \<open>
  C4. A request whose body passes the schema and whose rated user is the acting user is
  answered with the self-rating rejection, whatever the store holds, and the store (ledger
  and summaries) is returned as it was. This holds in the controller and in the route; in
  the route the acting user is the one that \<open>authenticateToken\<close> resolved.
\<close>

theorem self_rating_rejected:
  "(createRatingSchema b \<longrightarrow> b_ratedUserId b = uid \<longrightarrow>
      createRating s uid b = (SelfRating, s)) \<and>
   (authenticateToken s tok = Some user \<longrightarrow> ratingValidation q \<longrightarrow>
      q_rated_user_id q = p_id user \<longrightarrow> post_rating s tok q = (SelfRating, s))"
  by (simp add: createRating_def post_rating_def post_rating_checks_def)

theorem self_rating_rejected_witness:
  "createRatingSchema (demo_body 1 None 5) \<and> b_ratedUserId (demo_body 1 None 5) = 1 \<and>
   createRating demo_rated 1 (demo_body 1 None 5) = (SelfRating, demo_rated) \<and>
   authenticateToken demo_store (Some 1) = Some demo_user \<and> ratingValidation (demo_req 1 5) \<and>
   q_rated_user_id (demo_req 1 5) = p_id demo_user \<and>
   post_rating demo_store (Some 1) (demo_req 1 5) = (SelfRating, demo_store)"
proof -
  have h1: "createRatingSchema (demo_body 1 None 5)"
    by (simp add: createRatingSchema_def demo_body_def)
  have h2: "b_ratedUserId (demo_body 1 None 5) = 1"
    by (simp add: demo_body_def)
  have h3: "ratingValidation (demo_req 1 5)"
    by (simp add: ratingValidation_def demo_req_def)
  have h4: "q_rated_user_id (demo_req 1 5) = p_id demo_user"
    by (simp add: demo_req_def demo_user_def)
  note c1 = self_rating_rejected[where s = demo_rated, THEN conjunct1, rule_format, OF h1 h2]
  note c2 = self_rating_rejected[THEN conjunct2, rule_format, OF demo_auth_1 h3 h4]
  from h1 h2 h3 h4 demo_auth_1 c1 c2 show ?thesis by blast
qed

subsection \<open>C5: missing target\<close>

text \<open>
  C5 as stated fails in the controller: \<open>createRating\<close> never looks the rated user up,
  so a request for a user that does not exist reaches \<open>Rating.create\<close>, whose foreign key
  rejects it, and the error goes to \<^verbatim>\<open>next(error)\<close>; the answer is not the
  target-not-found rejection.
\<close>

theorem createRating_missing_target_forwarded:
  "createRatingSchema (demo_body 9 None 5) \<and> \<not> user_active demo_store 9 \<and>
   createRating demo_store 1 (demo_body 9 None 5) = (Forwarded, demo_store) \<and>
   fst (createRating demo_store 1 (demo_body 9 None 5)) \<noteq> TargetNotFound"
  by (simp add: demo_defs createRatingSchema_def user_active_def createRating_def findOne_def
      Rating_create_def)

text \<open>
  C5, amended. In the route \<^verbatim>\<open>POST /api/ratings\<close>, every authenticated request with a
  valid body whose rated user id lies in the INTEGER range and is not an active user is
  answered with the target-not-found rejection before any insert, and the store is returned
  as it was; when the id lies outside the INTEGER range the lookup fails and the request is
  answered with the generic 500, the store again as it was. The controller \<open>createRating\<close>
  has no such lookup and never gives the target-not-found answer: a valid request that
  rates another user who does not exist (and whom no rating addresses) is refused by the
  insert's foreign key, the error is handed to \<^verbatim>\<open>next(error)\<close>, and whatever the answer,
  a request for a user that does not exist leaves the store as it was.
\<close>

theorem target_lookup_in_route_only:
  "(authenticateToken s tok = Some user \<longrightarrow> ratingValidation q \<longrightarrow>
      \<not> user_active s (q_rated_user_id q) \<longrightarrow> int4 (q_rated_user_id q) \<longrightarrow>
      post_rating s tok q = (TargetNotFound, s)) \<and>
   (authenticateToken s tok = Some user \<longrightarrow> ratingValidation q \<longrightarrow>
      \<not> user_active s (q_rated_user_id q) \<longrightarrow> \<not> int4 (q_rated_user_id q) \<longrightarrow>
      post_rating s tok q = (InternalError, s)) \<and>
   fst (createRating s uid b) \<noteq> TargetNotFound \<and>
   (createRatingSchema b \<longrightarrow> b_ratedUserId b \<noteq> uid \<longrightarrow> users s (b_ratedUserId b) = None \<longrightarrow>
      (\<forall>r\<in>set (ratings s). ratedUserId r \<noteq> b_ratedUserId b) \<longrightarrow>
      createRating s uid b = (Forwarded, s)) \<and>
   (users s (b_ratedUserId b) = None \<longrightarrow> snd (createRating s uid b) = s)"
proof (intro conjI impI)
  assume a: "authenticateToken s tok = Some user" and v: "ratingValidation q"
    and n: "\<not> user_active s (q_rated_user_id q)" and i: "int4 (q_rated_user_id q)"
  from auth_active[OF a] n have "p_id user \<noteq> q_rated_user_id q" by auto
  with a v n i show "post_rating s tok q = (TargetNotFound, s)"
    by (simp add: post_rating_def post_rating_checks_def)
next
  assume a: "authenticateToken s tok = Some user" and v: "ratingValidation q"
    and n: "\<not> user_active s (q_rated_user_id q)" and i: "\<not> int4 (q_rated_user_id q)"
  from auth_active[OF a] n have "p_id user \<noteq> q_rated_user_id q" by auto
  with a v n i show "post_rating s tok q = (InternalError, s)"
    by (simp add: post_rating_def post_rating_checks_def)
next
  show "fst (createRating s uid b) \<noteq> TargetNotFound"
    by (simp add: createRating_def split: option.splits prod.splits)
next
  assume v: "createRatingSchema b" and d: "b_ratedUserId b \<noteq> uid"
    and m: "users s (b_ratedUserId b) = None"
    and e: "\<forall>r\<in>set (ratings s). ratedUserId r \<noteq> b_ratedUserId b"
  from e have "findOne s (where_existing uid b) = None"
    by (auto simp: findOne_def find_None_set where_existing_def)
  with v d m show "createRating s uid b = (Forwarded, s)"
    by (simp add: createRating_def Rating_create_def)
next
  assume "users s (b_ratedUserId b) = None"
  then show "snd (createRating s uid b) = s"
    by (simp add: createRating_def Rating_create_def split: option.splits)
qed

theorem target_lookup_in_route_only_witness:
  "authenticateToken demo_store (Some 1) = Some demo_user \<and> ratingValidation (demo_req 4 5) \<and>
   \<not> user_active demo_store (q_rated_user_id (demo_req 4 5)) \<and>
   int4 (q_rated_user_id (demo_req 4 5)) \<and>
   post_rating demo_store (Some 1) (demo_req 4 5) = (TargetNotFound, demo_store) \<and>
   ratingValidation (demo_req 2147483648 5) \<and>
   \<not> user_active demo_store (q_rated_user_id (demo_req 2147483648 5)) \<and>
   \<not> int4 (q_rated_user_id (demo_req 2147483648 5)) \<and>
   post_rating demo_store (Some 1) (demo_req 2147483648 5) = (InternalError, demo_store) \<and>
   createRatingSchema (demo_body 6 None 3) \<and> b_ratedUserId (demo_body 6 None 3) \<noteq> 1 \<and>
   users demo_rated (b_ratedUserId (demo_body 6 None 3)) = None \<and>
   6 \<notin> ratedUserId ` set (ratings demo_rated) \<and>
   createRating demo_rated 1 (demo_body 6 None 3) = (Forwarded, demo_rated) \<and>
   snd (createRating demo_rated 1 (demo_body 6 None 3)) = demo_rated"
proof -
  have h1: "ratingValidation (demo_req 4 5)"
    by (simp add: ratingValidation_def demo_req_def)
  have h2: "\<not> user_active demo_store (q_rated_user_id (demo_req 4 5))"
    by (simp add: user_active_def demo_defs)
  have h3: "int4 (q_rated_user_id (demo_req 4 5))"
    by (simp add: int4_def demo_req_def)
  have g1: "ratingValidation (demo_req 2147483648 5)"
    by (simp add: ratingValidation_def demo_req_def)
  have g2: "\<not> user_active demo_store (q_rated_user_id (demo_req 2147483648 5))"
    by (simp add: user_active_def demo_defs)
  have g3: "\<not> int4 (q_rated_user_id (demo_req 2147483648 5))"
    by (simp add: int4_def demo_req_def)
  have k1: "createRatingSchema (demo_body 6 None 3)"
    by (simp add: createRatingSchema_def demo_body_def)
  have k2: "b_ratedUserId (demo_body 6 None 3) \<noteq> 1"
    by (simp add: demo_body_def)
  have k3: "users demo_rated (b_ratedUserId (demo_body 6 None 3)) = None"
    by (simp add: demo_rated_users demo_defs)
  have k4: "\<forall>r\<in>set (ratings demo_rated). ratedUserId r \<noteq> b_ratedUserId (demo_body 6 None 3)"
    by (simp add: demo_rated_ratings demo_body_def)
  have k4': "6 \<notin> ratedUserId ` set (ratings demo_rated)"
    by (simp add: demo_rated_ratings)
  note c1 = target_lookup_in_route_only[THEN conjunct1, rule_format, OF demo_auth_1 h1 h2 h3]
  note c2 = target_lookup_in_route_only[THEN conjunct2, THEN conjunct1, rule_format,
      OF demo_auth_1 g1 g2 g3]
  note c3 = target_lookup_in_route_only[THEN conjunct2, THEN conjunct2, THEN conjunct2,
      THEN conjunct1, rule_format, OF k1 k2 k3 k4[rule_format]]
  note c4 = target_lookup_in_route_only[where uid = 1, THEN conjunct2, THEN conjunct2,
      THEN conjunct2, THEN conjunct2, rule_format, OF k3]
  from demo_auth_1 h1 h2 h3 g1 g2 g3 k1 k2 k3 k4' c1 c2 c3 c4 show ?thesis by blast
qed

subsection \<open>C6: recompute over no ratings\<close>




subsection \<open>C7: owner or administrator\<close>

text \<open>
  C7. \<open>requireOwnerOrAdmin\<close> allows exactly when the principal is an administrator or
  its id is the owner's id, and otherwise denies with the insufficient-permission answer.
  The delete route decides the same way with the rating's reviewer as owner: when allowed
  the rating is removed, otherwise the answer is the insufficient-permission rejection and
  the store is returned as it was.
\<close>

theorem owner_or_admin:
  "(requireOwnerOrAdmin P ownerId = Allowed \<longleftrightarrow> p_role P = AdminRole \<or> p_id P = ownerId) \<and>
   (requireOwnerOrAdmin P ownerId \<noteq> Allowed \<longrightarrow>
      requireOwnerOrAdmin P ownerId = Denied InsufficientPermission) \<and>
   (authenticateToken s tok = Some P \<longrightarrow>
    find (\<lambda>r. rating_id r = rid) (ratings s) = Some r \<longrightarrow>
      (if requireOwnerOrAdmin P (raterId r) = Allowed
       then delete_rating s tok rid =
              (Deleted, s\<lparr>ratings := filter (\<lambda>r. rating_id r \<noteq> rid) (ratings s)\<rparr>)
       else delete_rating s tok rid = (InsufficientPermission, s)))"
  by (auto simp: requireOwnerOrAdmin_def delete_rating_def)

theorem owner_or_admin_witness:
  "authenticateToken demo_posted (Some 2) = Some \<lparr>p_id = 2, p_role = UserRole\<rparr> \<and>
   find (\<lambda>r. rating_id r = 1) (ratings demo_posted) = Some (hd (ratings demo_posted)) \<and>
   raterId (hd (ratings demo_posted)) = 1 \<and>
   requireOwnerOrAdmin \<lparr>p_id = 2, p_role = UserRole\<rparr> 1 = Denied InsufficientPermission \<and>
   delete_rating demo_posted (Some 2) 1 = (InsufficientPermission, demo_posted)"
proof -
  have h1: "authenticateToken demo_posted (Some 2) = Some \<lparr>p_id = 2, p_role = UserRole\<rparr>"
    by (simp add: authenticateToken_def demo_posted_eq demo_defs)
  have h2: "find (\<lambda>r. rating_id r = 1) (ratings demo_posted) = Some (hd (ratings demo_posted))"
    by (simp add: demo_posted_eq)
  have h3: "raterId (hd (ratings demo_posted)) = 1"
    by (simp add: demo_posted_eq)
  have h4: "requireOwnerOrAdmin \<lparr>p_id = 2, p_role = UserRole\<rparr> 1 \<noteq> Allowed"
    by (simp add: requireOwnerOrAdmin_def)
  note c1 = owner_or_admin[THEN conjunct2, THEN conjunct1, rule_format, OF h4]
  note c2 = owner_or_admin[THEN conjunct2, THEN conjunct2, rule_format, OF h1 h2]
  from c2 h3 h4 have c3: "delete_rating demo_posted (Some 2) 1 = (InsufficientPermission, demo_posted)"
    by simp
  from h1 h2 h3 c1 c3 show ?thesis by blast
qed

subsection \<open>C8: deleting a rating that is not there\<close>

text \<open>
  C8 as stated fails for an id that no rating can carry: the route binds the id of the URL
  to an INTEGER parameter, so \<^verbatim>\<open>DELETE /api/ratings/2147483648\<close> makes the lookup fail and
  is answered with the generic 500, not with the rating-not-found rejection.
\<close>

theorem delete_out_of_range_internal_error:
  "authenticateToken demo_posted (Some 1) = Some demo_user \<and>
   2147483648 \<notin> rating_id ` set (ratings demo_posted) \<and>
   delete_rating demo_posted (Some 1) 2147483648 = (InternalError, demo_posted)"
  by (simp add: delete_rating_def demo_posted_auth_1 int4_def) (simp add: demo_posted_eq)

text \<open>
  C8, amended. For an authenticated caller, deleting a rating id in the INTEGER range that
  no row of the ledger carries is answered with the rating-not-found rejection and returns
  the store (ledger and every summary) as it was, so repeating the request gives the same
  answer; after a delete that succeeded, the same request is answered with
  rating-not-found. An id outside the INTEGER range that no row carries is answered with
  the generic 500, the store again as it was.
\<close>

theorem delete_missing_rating:
  "(authenticateToken s tok = Some user \<longrightarrow> (\<forall>r\<in>set (ratings s). rating_id r \<noteq> rid) \<longrightarrow>
      int4 rid \<longrightarrow> delete_rating s tok rid = (RatingNotFound, s)) \<and>
   (authenticateToken s tok = Some user \<longrightarrow> (\<forall>r\<in>set (ratings s). rating_id r \<noteq> rid) \<longrightarrow>
      \<not> int4 rid \<longrightarrow> delete_rating s tok rid = (InternalError, s)) \<and>
   (delete_rating s tok rid = (Deleted, s') \<longrightarrow> int4 rid \<longrightarrow>
      delete_rating s' tok rid = (RatingNotFound, s'))"
proof (intro conjI impI)
  assume "authenticateToken s tok = Some user" "\<forall>r\<in>set (ratings s). rating_id r \<noteq> rid"
    "int4 rid"
  then show "delete_rating s tok rid = (RatingNotFound, s)"
    by (simp add: delete_rating_def find_None_set[THEN iffD2])
next
  assume "authenticateToken s tok = Some user" "\<forall>r\<in>set (ratings s). rating_id r \<noteq> rid"
    "\<not> int4 rid"
  then show "delete_rating s tok rid = (InternalError, s)"
    by (simp add: delete_rating_def find_None_set[THEN iffD2])
next
  assume d: "delete_rating s tok rid = (Deleted, s')" and i: "int4 rid"
  then obtain user where a: "authenticateToken s tok = Some user"
    by (auto simp: delete_rating_def split: option.splits)
  from d a have s': "s' = s\<lparr>ratings := filter (\<lambda>r. rating_id r \<noteq> rid) (ratings s)\<rparr>"
    by (auto simp: delete_rating_def split: option.splits if_splits)
  then have "users s' = users s" by simp
  from auth_same_users[OF this] a have "authenticateToken s' tok = Some user"
    by simp
  moreover have "find (\<lambda>r. rating_id r = rid) (ratings s') = None"
    by (simp add: s' find_None_set)
  ultimately show "delete_rating s' tok rid = (RatingNotFound, s')"
    using i by (simp add: delete_rating_def)
qed

theorem delete_missing_rating_witness:
  "authenticateToken demo_posted (Some 1) = Some demo_user \<and>
   6 \<notin> rating_id ` set (ratings demo_posted) \<and> int4 6 \<and>
   delete_rating demo_posted (Some 1) 6 = (RatingNotFound, demo_posted) \<and>
   9999999999 \<notin> rating_id ` set (ratings demo_posted) \<and> \<not> int4 9999999999 \<and>
   delete_rating demo_posted (Some 1) 9999999999 = (InternalError, demo_posted) \<and>
   int4 1 \<and>
   delete_rating demo_posted (Some 1) 1 = (Deleted, demo_posted\<lparr>ratings := []\<rparr>) \<and>
   delete_rating (demo_posted\<lparr>ratings := []\<rparr>) (Some 1) 1 =
     (RatingNotFound, demo_posted\<lparr>ratings := []\<rparr>)"
proof -
  note h1 = demo_posted_auth_1
  have h2: "\<forall>r\<in>set (ratings demo_posted). rating_id r \<noteq> 6"
    by (simp add: demo_posted_eq)
  have h2': "6 \<notin> rating_id ` set (ratings demo_posted)"
    by (simp add: demo_posted_eq)
  have g2: "\<forall>r\<in>set (ratings demo_posted). rating_id r \<noteq> 9999999999"
    by (simp add: demo_posted_eq)
  have g2': "9999999999 \<notin> rating_id ` set (ratings demo_posted)"
    by (simp add: demo_posted_eq)
  have i: "int4 6" "\<not> int4 9999999999" "int4 1" by (simp_all add: int4_def)
  have h3: "delete_rating demo_posted (Some 1) 1 = (Deleted, demo_posted\<lparr>ratings := []\<rparr>)"
    by (simp add: delete_rating_def h1 demo_user_def) (simp add: demo_posted_eq)
  note c1 = delete_missing_rating[THEN conjunct1, rule_format, OF h1 h2[rule_format] i(1)]
  note c2 = delete_missing_rating[THEN conjunct2, THEN conjunct1, rule_format,
      OF h1 g2[rule_format] i(2)]
  note c3 = delete_missing_rating[THEN conjunct2, THEN conjunct2, rule_format, OF h3 i(3)]
  from h1 h2' g2' i h3 c1 c2 c3 show ?thesis by blast
qed

subsection \<open>C10: the duplicate lookup and the skill id\<close>

text \<open>
  C10. In \<open>createRating\<close>, for a valid body that does not rate the acting user: when the
  body has no skill id, the request is rejected as a duplicate exactly when the ledger holds
  any rating by this rater for this rated user, whatever that rating's skill id; when the
  body has skill id \<open>k\<close>, it is rejected as a duplicate exactly when the ledger holds such
  a rating with skill id \<open>k\<close>.
\<close>

theorem duplicate_check_asymmetric:
  assumes "createRatingSchema b" "b_ratedUserId b \<noteq> uid"
  shows "(b_skillId b = None \<longrightarrow>
            (fst (createRating s uid b) = DuplicateRating \<longleftrightarrow>
             (\<exists>r\<in>set (ratings s). raterId r = uid \<and> ratedUserId r = b_ratedUserId b))) \<and>
         (\<forall>k. b_skillId b = Some k \<longrightarrow>
            (fst (createRating s uid b) = DuplicateRating \<longleftrightarrow>
             (\<exists>r\<in>set (ratings s). raterId r = uid \<and> ratedUserId r = b_ratedUserId b \<and>
                skillId r = Some k)))"
  using createRating_dup_iff[OF assms, of s]
  by (auto simp: where_existing_def)

theorem duplicate_check_asymmetric_witness:
  "createRatingSchema (demo_body 2 None 4) \<and> b_ratedUserId (demo_body 2 None 4) \<noteq> 1 \<and>
   map skillId (ratings demo_scoped) = [Some 7] \<and>
   fst (createRating demo_scoped 1 (demo_body 2 None 4)) = DuplicateRating \<and>
   createRatingSchema (demo_body 2 (Some 8) 4) \<and> b_ratedUserId (demo_body 2 (Some 8) 4) \<noteq> 1 \<and>
   fst (createRating demo_scoped 1 (demo_body 2 (Some 8) 4)) \<noteq> DuplicateRating"
proof -
  have h1: "createRatingSchema (demo_body 2 None 4)"
    by (simp add: createRatingSchema_def demo_body_def)
  have h2: "b_ratedUserId (demo_body 2 None 4) \<noteq> 1"
    by (simp add: demo_body_def)
  have h3: "createRatingSchema (demo_body 2 (Some 8) 4)"
    by (simp add: createRatingSchema_def demo_body_def)
  have h4: "b_ratedUserId (demo_body 2 (Some 8) 4) \<noteq> 1"
    by (simp add: demo_body_def)
  have h5: "map skillId (ratings demo_scoped) = [Some 7]"
    by (simp add: demo_scoped_ratings)
  from duplicate_check_asymmetric[OF h1 h2, of demo_scoped]
  have c1: "fst (createRating demo_scoped 1 (demo_body 2 None 4)) = DuplicateRating"
    by (simp add: demo_body_def demo_scoped_ratings)
  from duplicate_check_asymmetric[OF h3 h4, of demo_scoped]
  have c2: "fst (createRating demo_scoped 1 (demo_body 2 (Some 8) 4)) \<noteq> DuplicateRating"
    by (simp add: demo_body_def demo_scoped_ratings)
  from h1 h2 h3 h4 h5 c1 c2 show ?thesis by blast
qed

subsection \<open>C3: duplicate detection\<close>

text \<open>
  C3 as stated fails in the route, where the lookup of the rated user precedes the
  duplicate lookup. User 1 rates user 2 (201), the administrator deactivates user 2, and
  user 1 sends a second rating of user 2: the ledger holds the first rating, and the answer
  is the target-not-found rejection, not the duplicate rejection.
\<close>

theorem duplicate_after_deactivation_not_found:
  "post_rating demo_store (Some 1) (demo_req 2 5) = (Created 1, demo_posted) \<and>
   toggle_status demo_posted (Some 3) 2 = (Toggled, demo_deactivated) \<and>
   map (\<lambda>r. (raterId r, ratedUserId r, skillId r)) (ratings demo_deactivated) = [(1, 2, None)] \<and>
   post_rating demo_deactivated (Some 1) (demo_req 2 4) = (TargetNotFound, demo_deactivated)"
proof -
  have a: "post_rating demo_store (Some 1) (demo_req 2 5) = (Created 1, demo_posted)"
    by (simp add: demo_posted_eq) (simp add: demo_defs route_defs)
  have b: "toggle_status demo_posted (Some 3) 2 = (Toggled, demo_deactivated)"
    by (simp add: demo_deactivated_eq) (simp add: demo_posted_eq demo_defs route_defs)
  have c: "map (\<lambda>r. (raterId r, ratedUserId r, skillId r)) (ratings demo_deactivated) =
      [(1, 2, None)]"
    by (simp add: demo_deactivated_eq demo_posted_eq)
  have d: "post_rating demo_deactivated (Some 1) (demo_req 2 4) =
      (TargetNotFound, demo_deactivated)"
    by (simp add: demo_deactivated_eq demo_posted_eq demo_defs route_defs)
  from a b c d show ?thesis by blast
qed

text \<open>
  C3, amended. When the ledger holds a rating by rater R for another user T without a skill
  id, a further valid request by R for T without a skill id inserts nothing and is
  rejected: as a duplicate in the controller; in the route, where R is the authenticated
  user, as a duplicate while T is an active user, and with the target-not-found rejection
  once T (an id in the INTEGER range) is no longer active. In the controller, which is the
  handler that knows skill ids, a valid request by R for T with a skill id that none of R's
  ratings of T carries is created: the answer is 201 and the ledger gains exactly the new
  row (R, T and the skill must exist, as the foreign keys require).
\<close>

theorem duplicate_detection:
  "(createRatingSchema b \<longrightarrow> b_skillId b = None \<longrightarrow> b_ratedUserId b \<noteq> uid \<longrightarrow>
      (\<exists>r\<in>set (ratings s). raterId r = uid \<and> ratedUserId r = b_ratedUserId b \<and>
         skillId r = None) \<longrightarrow>
      createRating s uid b = (DuplicateRating, s)) \<and>
   (authenticateToken s tok = Some user \<longrightarrow> ratingValidation q \<longrightarrow>
      q_rated_user_id q \<noteq> p_id user \<longrightarrow> user_active s (q_rated_user_id q) \<longrightarrow>
      (\<exists>r\<in>set (ratings s). raterId r = p_id user \<and> ratedUserId r = q_rated_user_id q \<and>
         skillId r = None) \<longrightarrow>
      post_rating s tok q = (DuplicateRating, s)) \<and>
   (authenticateToken s tok = Some user \<longrightarrow> ratingValidation q \<longrightarrow>
      q_rated_user_id q \<noteq> p_id user \<longrightarrow> \<not> user_active s (q_rated_user_id q) \<longrightarrow>
      int4 (q_rated_user_id q) \<longrightarrow>
      post_rating s tok q = (TargetNotFound, s)) \<and>
   (createRatingSchema b \<longrightarrow> b_skillId b = Some k \<longrightarrow> b_ratedUserId b \<noteq> uid \<longrightarrow>
      (\<forall>r\<in>set (ratings s). raterId r = uid \<and> ratedUserId r = b_ratedUserId b \<longrightarrow>
         skillId r \<noteq> Some k) \<longrightarrow>
      users s uid \<noteq> None \<longrightarrow> users s (b_ratedUserId b) \<noteq> None \<longrightarrow> k \<in> skills s \<longrightarrow>
      fst (createRating s uid b) = Created (next_rating_id s) \<and>
      ratings (snd (createRating s uid b)) = new_row s uid b # ratings s)"
proof (intro conjI impI)
  assume v: "createRatingSchema b" and n: "b_skillId b = None" and d: "b_ratedUserId b \<noteq> uid"
    and e: "\<exists>r\<in>set (ratings s). raterId r = uid \<and> ratedUserId r = b_ratedUserId b \<and>
         skillId r = None"
  from e n have "\<exists>r\<in>set (ratings s). where_existing uid b r"
    by (auto simp: where_existing_def)
  with createRating_dup_iff[OF v d, of s] show "createRating s uid b = (DuplicateRating, s)"
    by (simp add: createRating_dup_state)
next
  assume a: "authenticateToken s tok = Some user" and v: "ratingValidation q"
    and d: "q_rated_user_id q \<noteq> p_id user" and act: "user_active s (q_rated_user_id q)"
    and e: "\<exists>r\<in>set (ratings s). raterId r = p_id user \<and> ratedUserId r = q_rated_user_id q \<and>
         skillId r = None"
  from e have "pair_rows s (p_id user) (q_rated_user_id q) \<noteq> []"
    by (auto simp: pair_rows_def filter_empty_conv)
  with a v d act show "post_rating s tok q = (DuplicateRating, s)"
    by (auto simp: post_rating_def post_rating_checks_def)
next
  assume a: "authenticateToken s tok = Some user" and v: "ratingValidation q"
    and d: "q_rated_user_id q \<noteq> p_id user" and act: "\<not> user_active s (q_rated_user_id q)"
    and i: "int4 (q_rated_user_id q)"
  then show "post_rating s tok q = (TargetNotFound, s)"
    by (auto simp: post_rating_def post_rating_checks_def)
next
  assume v: "createRatingSchema b" and k: "b_skillId b = Some k" and d: "b_ratedUserId b \<noteq> uid"
    and e: "\<forall>r\<in>set (ratings s). raterId r = uid \<and> ratedUserId r = b_ratedUserId b \<longrightarrow>
         skillId r \<noteq> Some k"
    and fk: "users s uid \<noteq> None" "users s (b_ratedUserId b) \<noteq> None" "k \<in> skills s"
  from e k have f: "findOne s (where_existing uid b) = None"
    by (auto simp: findOne_def find_None_set where_existing_def)
  from v have r: "1 \<le> b_rating b" "b_rating b \<le> 5" by (auto simp: createRatingSchema_def)
  show "fst (createRating s uid b) = Created (next_rating_id s)"
    using v d f fk k r by (auto simp: createRating_def Rating_create_def Let_def new_row_def)
  show "ratings (snd (createRating s uid b)) = new_row s uid b # ratings s"
    using v d f fk k r by (auto simp: createRating_def Rating_create_def Let_def updateUser_ratings)
qed

theorem duplicate_detection_witness:
  "createRatingSchema (demo_body 2 None 4) \<and> b_skillId (demo_body 2 None 4) = None \<and>
   b_ratedUserId (demo_body 2 None 4) \<noteq> 1 \<and>
   map (\<lambda>r. (raterId r, ratedUserId r, skillId r)) (ratings demo_rated) = [(1, 2, None)] \<and>
   createRating demo_rated 1 (demo_body 2 None 4) = (DuplicateRating, demo_rated) \<and>
   authenticateToken demo_posted (Some 1) = Some demo_user \<and> ratingValidation (demo_req 2 4) \<and>
   map (\<lambda>r. (raterId r, ratedUserId r, skillId r)) (ratings demo_posted) = [(1, 2, None)] \<and>
   user_active demo_posted (q_rated_user_id (demo_req 2 4)) \<and>
   post_rating demo_posted (Some 1) (demo_req 2 4) = (DuplicateRating, demo_posted) \<and>
   authenticateToken demo_deactivated (Some 1) = Some demo_user \<and>
   \<not> user_active demo_deactivated (q_rated_user_id (demo_req 2 4)) \<and>
   int4 (q_rated_user_id (demo_req 2 4)) \<and>
   post_rating demo_deactivated (Some 1) (demo_req 2 4) = (TargetNotFound, demo_deactivated) \<and>
   createRatingSchema (demo_body 2 (Some 7) 4) \<and> 7 \<in> skills demo_rated \<and>
   fst (createRating demo_rated 1 (demo_body 2 (Some 7) 4)) = Created 2 \<and>
   ratings (snd (createRating demo_rated 1 (demo_body 2 (Some 7) 4))) =
     \<lparr>rating_id = 2, raterId = 1, ratedUserId = 2, skillId = Some 7, rating = 4,
      comment = None\<rparr> # ratings demo_rated"
proof -
  have h1: "createRatingSchema (demo_body 2 None 4)"
    by (simp add: createRatingSchema_def demo_body_def)
  have h2: "b_skillId (demo_body 2 None 4) = None" by (simp add: demo_body_def)
  have h3: "b_ratedUserId (demo_body 2 None 4) \<noteq> 1" by (simp add: demo_body_def)
  have h4: "\<exists>r\<in>set (ratings demo_rated). raterId r = 1 \<and>
      ratedUserId r = b_ratedUserId (demo_body 2 None 4) \<and> skillId r = None"
    by (simp add: demo_rated_ratings demo_body_def)
  have h4': "map (\<lambda>r. (raterId r, ratedUserId r, skillId r)) (ratings demo_rated) = [(1, 2, None)]"
    by (simp add: demo_rated_ratings)
  note g1 = demo_posted_auth_1
  have g2: "ratingValidation (demo_req 2 4)" by (simp add: ratingValidation_def demo_req_def)
  have g3: "q_rated_user_id (demo_req 2 4) \<noteq> p_id demo_user"
    by (simp add: demo_req_def demo_user_def)
  have g4: "user_active demo_posted (q_rated_user_id (demo_req 2 4))"
    by (simp add: user_active_def demo_posted_eq demo_defs)
  have g5: "\<exists>r\<in>set (ratings demo_posted). raterId r = p_id demo_user \<and>
      ratedUserId r = q_rated_user_id (demo_req 2 4) \<and> skillId r = None"
    by (simp add: demo_posted_eq demo_req_def demo_user_def)
  have g5': "map (\<lambda>r. (raterId r, ratedUserId r, skillId r)) (ratings demo_posted) = [(1, 2, None)]"
    by (simp add: demo_posted_eq)
  have d1: "authenticateToken demo_deactivated (Some 1) = Some demo_user"
    by (simp add: authenticateToken_def demo_deactivated_eq demo_defs)
  have d4: "\<not> user_active demo_deactivated (q_rated_user_id (demo_req 2 4))"
    by (simp add: user_active_def demo_deactivated_eq demo_defs)
  have d5: "int4 (q_rated_user_id (demo_req 2 4))" by (simp add: int4_def demo_req_def)
  have k1: "createRatingSchema (demo_body 2 (Some 7) 4)"
    by (simp add: createRatingSchema_def demo_body_def)
  have k2: "b_skillId (demo_body 2 (Some 7) 4) = Some 7" by (simp add: demo_body_def)
  have k3: "b_ratedUserId (demo_body 2 (Some 7) 4) \<noteq> 1" by (simp add: demo_body_def)
  have k4: "\<forall>r\<in>set (ratings demo_rated). raterId r = 1 \<and>
      ratedUserId r = b_ratedUserId (demo_body 2 (Some 7) 4) \<longrightarrow> skillId r \<noteq> Some 7"
    by (simp add: demo_rated_ratings)
  have k5: "users demo_rated 1 \<noteq> None" by (simp add: demo_rated_users demo_defs)
  have k6: "users demo_rated (b_ratedUserId (demo_body 2 (Some 7) 4)) \<noteq> None"
    by (simp add: demo_rated_users demo_defs)
  have k7: "7 \<in> skills demo_rated" by (simp add: demo_rated_skills)
  note c1 = duplicate_detection[THEN conjunct1, rule_format, OF h1 h2 h3 h4]
  note c2 = duplicate_detection[THEN conjunct2, THEN conjunct1, rule_format, OF g1 g2 g3 g4 g5]
  note c2' = duplicate_detection[THEN conjunct2, THEN conjunct2, THEN conjunct1, rule_format,
      OF d1 g2 g3 d4 d5]
  note c3 = duplicate_detection[THEN conjunct2, THEN conjunct2, THEN conjunct2, rule_format,
      OF k1 k2 k3 k4[rule_format] k5 k6 k7]
  from c3 have c4: "fst (createRating demo_rated 1 (demo_body 2 (Some 7) 4)) = Created 2"
    "ratings (snd (createRating demo_rated 1 (demo_body 2 (Some 7) 4))) =
     \<lparr>rating_id = 2, raterId = 1, ratedUserId = 2, skillId = Some 7, rating = 4,
      comment = None\<rparr> # ratings demo_rated"
    by (simp_all add: demo_rated_next new_row_def demo_body_def)
  from h1 h2 h3 h4' c1 g1 g2 g4 g5' c2 d1 d4 d5 c2' k1 k7 c4 show ?thesis by blast
qed

subsection \<open>C1: the stored summary and the ledger\<close>




subsection \<open>C2: a violated uniqueness constraint\<close>

text \<open>
  C2 as stated fails. Two requests by user 1 to rate user 2 are in flight; both pass the
  checks against the same store, the first insert succeeds, and the second insert violates
  \<^verbatim>\<open>UNIQUE(reviewer_id, rated_user_id)\<close>. The route's catch block answers it with the
  generic 500, not with the duplicate rejection.
\<close>

theorem racing_insert_internal_error:
  "post_rating_checks demo_store demo_user (demo_req 2 5) = None \<and>
   post_rating_checks demo_store demo_user (demo_req 2 4) = None \<and>
   post_rating_insert demo_store demo_user (demo_req 2 5) = (Created 1, demo_posted) \<and>
   post_rating_insert demo_posted demo_user (demo_req 2 4) = (InternalError, demo_posted)"
  by (simp add: demo_posted_eq)
     (simp add: demo_defs post_rating_checks_def post_rating_insert_def insert_rating_def
        ratingValidation_def user_active_def pair_rows_def trim_def Let_def)

text \<open>
  C2, amended. The insert of the route is guarded by the table's uniqueness constraint
  whatever the read-check saw: when the ledger already holds a rating of the pair, the
  insert writes nothing and the request is answered with the generic 500 of the catch
  block; the insert step never answers with the duplicate rejection, and it keeps the
  pairs of the ledger distinct. The duplicate rejection (409) comes only from the
  read-check, that is when the lookup before the insert finds a rating of the pair.
\<close>

theorem constraint_violation_is_internal_error:
  "(pair_rows s (p_id user) (q_rated_user_id q) \<noteq> [] \<longrightarrow>
      post_rating_insert s user q = (InternalError, s)) \<and>
   fst (post_rating_insert s user q) \<noteq> DuplicateRating \<and>
   (unique_pairs s \<longrightarrow> unique_pairs (snd (post_rating_insert s user q))) \<and>
   (fst (post_rating s tok q) = DuplicateRating \<longrightarrow>
      (\<exists>caller. authenticateToken s tok = Some caller \<and>
         pair_rows s (p_id caller) (q_rated_user_id q) \<noteq> []))"
proof (intro conjI impI)
  assume "pair_rows s (p_id user) (q_rated_user_id q) \<noteq> []"
  then show "post_rating_insert s user q = (InternalError, s)"
    by (simp add: post_rating_insert_def insert_rating_def)
next
  show "fst (post_rating_insert s user q) \<noteq> DuplicateRating"
    by (simp add: post_rating_insert_def insert_rating_def Let_def)
next
  assume "unique_pairs s"
  then show "unique_pairs (snd (post_rating_insert s user q))"
    by (auto simp: post_rating_insert_def insert_rating_def Let_def unique_pairs_def
        pair_rows_def filter_empty_conv)
next
  assume d: "fst (post_rating s tok q) = DuplicateRating"
  then obtain caller where a: "authenticateToken s tok = Some caller"
    by (auto simp: post_rating_def split: option.splits)
  have n: "fst (post_rating_insert s caller q) \<noteq> DuplicateRating"
    by (simp add: post_rating_insert_def insert_rating_def Let_def)
  from d a n have "post_rating_checks s caller q = Some DuplicateRating"
    by (auto simp: post_rating_def split: option.splits)
  then have "pair_rows s (p_id caller) (q_rated_user_id q) \<noteq> []"
    by (auto simp: post_rating_checks_def split: if_splits)
  with a show "\<exists>caller. authenticateToken s tok = Some caller \<and>
         pair_rows s (p_id caller) (q_rated_user_id q) \<noteq> []"
    by blast
qed

theorem constraint_violation_is_internal_error_witness:
  "pair_rows demo_posted (p_id demo_user) (q_rated_user_id (demo_req 2 3)) \<noteq> [] \<and>
   post_rating_insert demo_posted demo_user (demo_req 2 3) = (InternalError, demo_posted) \<and>
   unique_pairs demo_posted \<and>
   unique_pairs (snd (post_rating_insert demo_posted demo_user (demo_req 3 3))) \<and>
   map (\<lambda>r. (raterId r, ratedUserId r))
     (ratings (snd (post_rating_insert demo_posted demo_user (demo_req 3 3)))) = [(1, 3), (1, 2)] \<and>
   fst (post_rating demo_posted (Some 1) (demo_req 2 3)) = DuplicateRating"
proof -
  have h1: "pair_rows demo_posted (p_id demo_user) (q_rated_user_id (demo_req 2 3)) \<noteq> []"
    by (simp add: demo_posted_eq pair_rows_def demo_defs)
  have h2: "unique_pairs demo_posted"
    by (simp add: demo_posted_eq unique_pairs_def)
  have h3: "fst (post_rating demo_posted (Some 1) (demo_req 2 3)) = DuplicateRating"
    by (simp add: demo_posted_eq demo_defs route_defs trim_def)
  have e: "map (\<lambda>r. (raterId r, ratedUserId r))
     (ratings (snd (post_rating_insert demo_posted demo_user (demo_req 3 3)))) = [(1, 3), (1, 2)]"
    by (simp add: demo_posted_eq demo_defs post_rating_insert_def insert_rating_def pair_rows_def
        Let_def)
  note c1 = constraint_violation_is_internal_error[THEN conjunct1, rule_format, OF h1]
  note c2 = constraint_violation_is_internal_error[THEN conjunct2, THEN conjunct2,
      THEN conjunct1, rule_format, OF h2, where user = demo_user and q = "demo_req 3 3"]
  from h1 h2 h3 e c1 c2 show ?thesis by blast
qed

subsection \<open>C9: pagination of the rating list\<close>

text \<open>
  C9 as stated fails. The route uses \<^verbatim>\<open>page\<close> and \<^verbatim>\<open>limit\<close> as they come: with
  \<^verbatim>\<open>page = 0\<close> the offset is negative and the request is answered with a 500, and with
  \<^verbatim>\<open>limit = 0\<close> the answer reports limit 0 and no finite page count. The default limit
  of this route is 10, not 20.
\<close>

theorem page_zero_not_normalized:
  "user_active demo_listed 2 \<and> offset_of (Some 0) (Some 10) = Some (- 10) \<and>
   get_user_ratings demo_listed 2 (Some 0) (Some 10) = Some (Inl InternalError) \<and>
   map_option (map_sum id v_pagination) (get_user_ratings demo_listed 2 (Some 1) (Some 0)) =
     Some (Inr \<lparr>pg_page = 1, pg_limit = 0, pg_total = 3, pg_totalPages = None\<rparr>) \<and>
   limit_of None = 10"
  by (simp add: user_active_def demo_listed_eq demo_defs offset_of_def safe_integer_def
      page_of_def limit_of_def get_user_ratings_def limit_offset_def total_pages_def
      rated_rows_def sql_count_def Let_def)

text \<open>
  C9, amended. An absent \<^verbatim>\<open>page\<close> is 1, an absent \<^verbatim>\<open>limit\<close> is 10, and a value that is
  present is used as it is. The offset is \<open>(page - 1) * limit\<close>, and the model answers
  exactly when \<open>page\<close>, \<open>limit\<close>, \<open>page - 1\<close> and the offset are at most \<open>2 ^ 53 - 1\<close> in
  magnitude, as is the number of the user's ratings. In that range, for an active user:
  with \<open>page \<ge> 1\<close> and \<open>limit \<ge> 1\<close> the answer lists the \<open>limit\<close> ratings after the first
  \<open>offset\<close> ones, newest first, and reports the page, the limit, the number of ratings of
  the user and \<open>totalPages = \<lceil>total / limit\<rceil>\<close>; a page below 1 with a positive limit, or a
  negative limit, is answered with a 500; and with \<open>limit = 0\<close> the answer lists nothing,
  reports limit 0 and has no finite \<open>totalPages\<close>.
\<close>

theorem pagination_as_given:
  "page_of None = 1 \<and> limit_of None = 10 \<and> page_of (Some p) = p \<and> limit_of (Some l) = l \<and>
   (offset_of page limit = Some off \<longrightarrow> off = (page_of page - 1) * limit_of limit) \<and>
   (offset_of page limit \<noteq> None \<longleftrightarrow>
      safe_integer (page_of page) \<and> safe_integer (limit_of limit) \<and>
      safe_integer (page_of page - 1) \<and> safe_integer ((page_of page - 1) * limit_of limit)) \<and>
   (get_user_ratings s u page limit \<noteq> None \<longleftrightarrow>
      offset_of page limit \<noteq> None \<and> safe_integer (int (length (rated_rows s u)))) \<and>
   (user_active s u \<longrightarrow> get_user_ratings s u page limit \<noteq> None \<longrightarrow>
    1 \<le> page_of page \<longrightarrow> 1 \<le> limit_of limit \<longrightarrow>
      (\<exists>v. get_user_ratings s u page limit = Some (Inr v) \<and>
           v_ratings v =
             take (nat (limit_of limit)) (drop (nat ((page_of page - 1) * limit_of limit))
               (filter (\<lambda>r. users s (raterId r) \<noteq> None) (rated_rows s u))) \<and>
           v_pagination v =
             \<lparr>pg_page = page_of page, pg_limit = limit_of limit,
              pg_total = int (length (rated_rows s u)),
              pg_totalPages =
                Some \<lceil>(of_int (int (length (rated_rows s u))) :: rat) / of_int (limit_of limit)\<rceil>\<rparr>)) \<and>
   (user_active s u \<longrightarrow> get_user_ratings s u page limit \<noteq> None \<longrightarrow>
    (page_of page < 1 \<and> 0 < limit_of limit \<or> limit_of limit < 0) \<longrightarrow>
      get_user_ratings s u page limit = Some (Inl InternalError)) \<and>
   (user_active s u \<longrightarrow> get_user_ratings s u page limit \<noteq> None \<longrightarrow> limit_of limit = 0 \<longrightarrow>
      (\<exists>v. get_user_ratings s u page limit = Some (Inr v) \<and> v_ratings v = [] \<and>
           v_pagination v =
             \<lparr>pg_page = page_of page, pg_limit = 0,
              pg_total = int (length (rated_rows s u)), pg_totalPages = None\<rparr>))"
proof (intro conjI impI)
  assume "offset_of page limit = Some off"
  then show "off = (page_of page - 1) * limit_of limit"
    by (auto simp: offset_of_def Let_def split: if_splits)
next
  show "offset_of page limit \<noteq> None \<longleftrightarrow>
      safe_integer (page_of page) \<and> safe_integer (limit_of limit) \<and>
      safe_integer (page_of page - 1) \<and> safe_integer ((page_of page - 1) * limit_of limit)"
    by (simp add: offset_of_def Let_def)
next
  show "get_user_ratings s u page limit \<noteq> None \<longleftrightarrow>
      offset_of page limit \<noteq> None \<and> safe_integer (int (length (rated_rows s u)))"
    by (auto simp: get_user_ratings_def Let_def sql_count_def split: option.splits)
next
  assume a: "user_active s u" and g: "get_user_ratings s u page limit \<noteq> None"
    and p: "1 \<le> page_of page" and l: "1 \<le> limit_of limit"
  from g obtain off where o: "offset_of page limit = Some off"
    and n: "safe_integer (sql_count (rated_rows s u))"
    by (auto simp: get_user_ratings_def Let_def split: option.splits if_splits)
  from o have off: "off = (page_of page - 1) * limit_of limit"
    by (auto simp: offset_of_def Let_def split: if_splits)
  from p l have "0 \<le> (page_of page - 1) * limit_of limit" by simp
  with a l o n off show "\<exists>v. get_user_ratings s u page limit = Some (Inr v) \<and>
           v_ratings v =
             take (nat (limit_of limit)) (drop (nat ((page_of page - 1) * limit_of limit))
               (filter (\<lambda>r. users s (raterId r) \<noteq> None) (rated_rows s u))) \<and>
           v_pagination v =
             \<lparr>pg_page = page_of page, pg_limit = limit_of limit,
              pg_total = int (length (rated_rows s u)),
              pg_totalPages =
                Some \<lceil>(of_int (int (length (rated_rows s u))) :: rat) / of_int (limit_of limit)\<rceil>\<rparr>"
    by (simp add: get_user_ratings_def Let_def limit_offset_def total_pages_def sql_count_def)
next
  assume a: "user_active s u" and g: "get_user_ratings s u page limit \<noteq> None"
    and c: "page_of page < 1 \<and> 0 < limit_of limit \<or> limit_of limit < 0"
  from g obtain off where o: "offset_of page limit = Some off"
    and n: "safe_integer (sql_count (rated_rows s u))"
    by (auto simp: get_user_ratings_def Let_def split: option.splits if_splits)
  from o have off: "off = (page_of page - 1) * limit_of limit"
    by (auto simp: offset_of_def Let_def split: if_splits)
  from c have "limit_of limit < 0 \<or> (page_of page - 1) * limit_of limit < 0"
    by (auto simp: mult_less_0_iff)
  with a o n off show "get_user_ratings s u page limit = Some (Inl InternalError)"
    by (auto simp: get_user_ratings_def Let_def limit_offset_def)
next
  assume a: "user_active s u" and g: "get_user_ratings s u page limit \<noteq> None"
    and z: "limit_of limit = 0"
  from g obtain off where o: "offset_of page limit = Some off"
    and n: "safe_integer (sql_count (rated_rows s u))"
    by (auto simp: get_user_ratings_def Let_def split: option.splits if_splits)
  from o z have off: "off = 0"
    by (auto simp: offset_of_def Let_def split: if_splits)
  with a o n z show "\<exists>v. get_user_ratings s u page limit = Some (Inr v) \<and> v_ratings v = [] \<and>
           v_pagination v =
             \<lparr>pg_page = page_of page, pg_limit = 0,
              pg_total = int (length (rated_rows s u)), pg_totalPages = None\<rparr>"
    by (simp add: get_user_ratings_def Let_def limit_offset_def total_pages_def sql_count_def)
qed (simp_all add: page_of_def limit_of_def)

theorem pagination_as_given_witness:
  "user_active demo_listed 2 \<and> 1 \<le> page_of (Some 2) \<and> 1 \<le> limit_of (Some 2) \<and>
   offset_of (Some 2) (Some 2) = Some 2 \<and>
   map_option (map_sum id (\<lambda>v. (map rating_id (v_ratings v), v_pagination v)))
     (get_user_ratings demo_listed 2 (Some 2) (Some 2)) =
     Some (Inr ([1], \<lparr>pg_page = 2, pg_limit = 2, pg_total = 3, pg_totalPages = Some 2\<rparr>)) \<and>
   page_of (Some 0) < 1 \<and> 0 < limit_of (Some 10) \<and>
   get_user_ratings demo_listed 2 (Some 0) (Some 10) = Some (Inl InternalError) \<and>
   limit_of (Some 0) = 0 \<and>
   map_option (map_sum id (\<lambda>v. (v_ratings v, v_pagination v)))
     (get_user_ratings demo_listed 2 (Some 3) (Some 0)) =
     Some (Inr ([], \<lparr>pg_page = 3, pg_limit = 0, pg_total = 3, pg_totalPages = None\<rparr>)) \<and>
   get_user_ratings demo_listed 2 (Some 922337203685477581) (Some 10) = None"
proof -
  have h1: "user_active demo_listed 2"
    by (simp add: user_active_def demo_listed_eq demo_defs)
  have h2: "1 \<le> page_of (Some 2)" "1 \<le> limit_of (Some 2)"
    by (simp_all add: page_of_def limit_of_def)
  have h3: "page_of (Some 0) < 1 \<and> 0 < limit_of (Some 10) \<or> limit_of (Some 10) < 0"
    by (simp add: page_of_def limit_of_def)
  have h3': "page_of (Some 0) < 1" "0 < limit_of (Some 10)"
    by (simp_all add: page_of_def limit_of_def)
  have h4: "limit_of (Some 0) = 0" by (simp add: limit_of_def)
  have n: "int (length (rated_rows demo_listed 2)) = 3"
    by (simp add: rated_rows_def demo_listed_eq)
  note dom = pagination_as_given[THEN conjunct2, THEN conjunct2, THEN conjunct2,
      THEN conjunct2, THEN conjunct2, THEN conjunct2, THEN conjunct1]
  have o: "offset_of (Some 2) (Some 2) = Some 2"
    by (simp add: offset_of_def page_of_def limit_of_def safe_integer_def)
  have d1: "get_user_ratings demo_listed 2 (Some 2) (Some 2) \<noteq> None"
    by (rule dom[THEN iffD2])
       (simp add: n offset_of_def Let_def page_of_def limit_of_def safe_integer_def)
  have d2: "get_user_ratings demo_listed 2 (Some 0) (Some 10) \<noteq> None"
    by (rule dom[THEN iffD2])
       (simp add: n offset_of_def Let_def page_of_def limit_of_def safe_integer_def)
  have d3: "get_user_ratings demo_listed 2 (Some 3) (Some 0) \<noteq> None"
    by (rule dom[THEN iffD2])
       (simp add: n offset_of_def Let_def page_of_def limit_of_def safe_integer_def)
  have "offset_of (Some 922337203685477581) (Some 10) = None"
    by (simp add: offset_of_def Let_def page_of_def limit_of_def safe_integer_def)
  with dom[of demo_listed 2 "Some 922337203685477581" "Some 10"]
  have d4: "get_user_ratings demo_listed 2 (Some 922337203685477581) (Some 10) = None"
    by blast
  note rest = pagination_as_given[THEN conjunct2, THEN conjunct2, THEN conjunct2,
      THEN conjunct2, THEN conjunct2, THEN conjunct2, THEN conjunct2]
  note c1 = rest[THEN conjunct1, rule_format, OF h1 d1 h2]
  note c2 = rest[THEN conjunct2, THEN conjunct1, rule_format, OF h1 d2 h3]
  note c3 = rest[THEN conjunct2, THEN conjunct2, rule_format, OF h1 d3 h4]
  from c1 have c1': "map_option (map_sum id (\<lambda>v. (map rating_id (v_ratings v), v_pagination v)))
     (get_user_ratings demo_listed 2 (Some 2) (Some 2)) =
     Some (Inr ([1], \<lparr>pg_page = 2, pg_limit = 2, pg_total = 3, pg_totalPages = Some 2\<rparr>))"
    by (auto simp: page_of_def limit_of_def rated_rows_def demo_listed_eq demo_defs rat_round)
  from c3 have c3': "map_option (map_sum id (\<lambda>v. (v_ratings v, v_pagination v)))
     (get_user_ratings demo_listed 2 (Some 3) (Some 0)) =
     Some (Inr ([], \<lparr>pg_page = 3, pg_limit = 0, pg_total = 3, pg_totalPages = None\<rparr>))"
    by (auto simp: page_of_def n)
  from h1 h2 h3' h4 o c1' c2 c3' d4 show ?thesis by blast
qed

end
